theory Spec2Isabelle
  imports Complex_Main "HOL-Library.Sublist"
begin

section \<open>Python values, errors and builtins\<close>

text \<open>
  The extractor is Python. Exceptions are values of a sum type: \<open>Inl e\<close> is a raised
  exception, \<open>Inr x\<close> a returned value.
\<close>

datatype error = ValueError | ZeroDivisionError | IndexError | KeyError

text \<open>
  An image is opaque pixel data. The cells of the result table are dynamically typed:
  a validation result is \<open>True\<close>, \<open>False\<close> or \<open>None\<close>, a page number is an
  int, identifiers are strings, and a segment is an image.
\<close>

type_synonym ndarray = "nat list"

datatype image = Image ndarray

datatype pyval =
    PNone
  | PBool bool
  | PInt int
  | PStr string
  | PImage image
  | PList "pyval list"

type_synonym column = "pyval list"

text \<open>A dict keeps insertion order; assignment to a present key replaces its value in place.\<close>

type_synonym dict = "(string \<times> column) list"

fun dict_set :: "dict \<Rightarrow> string \<Rightarrow> column \<Rightarrow> dict" where
  "dict_set [] k v = [(k, v)]"
| "dict_set ((k', v') # d) k v = (if k' = k then (k, v) # d else (k', v') # dict_set d k v)"

fun dict_update :: "dict \<Rightarrow> dict \<Rightarrow> dict" where
  "dict_update d [] = d"
| "dict_update d ((k, v) # other) = dict_update (dict_set d k v) other"

text \<open>\<open>d[k]\<close> raises KeyError on a missing key.\<close>

definition dict_item :: "dict \<Rightarrow> string \<Rightarrow> error + column" where
  "dict_item d k = (case map_of d k of None \<Rightarrow> Inl KeyError | Some v \<Rightarrow> Inr v)"

text \<open>
  \<open>==\<close> on cells: \<open>bool\<close> is a subclass of \<open>int\<close>, so \<open>True == 1\<close>; lists compare
  element by element; values of unrelated types are unequal (a list never equals a
  string).
\<close>

fun py_eq :: "pyval \<Rightarrow> pyval \<Rightarrow> bool"
  and py_eq_list :: "pyval list \<Rightarrow> pyval list \<Rightarrow> bool" where
  "py_eq PNone b = (b = PNone)"
| "py_eq (PBool x) b = (b = PBool x \<or> b = PInt (if x then 1 else 0))"
| "py_eq (PInt i) b = (b = PInt i \<or> (i = 1 \<and> b = PBool True) \<or> (i = 0 \<and> b = PBool False))"
| "py_eq (PStr s) b = (b = PStr s)"
| "py_eq (PImage i) b = (b = PImage i)"
| "py_eq (PList xs) (PList ys) = py_eq_list xs ys"
| "py_eq (PList xs) PNone = False"
| "py_eq (PList xs) (PBool _) = False"
| "py_eq (PList xs) (PInt _) = False"
| "py_eq (PList xs) (PStr _) = False"
| "py_eq (PList xs) (PImage _) = False"
| "py_eq_list [] ys = (ys = [])"
| "py_eq_list (x # xs) [] = False"
| "py_eq_list (x # xs) (y # ys) = (py_eq x y \<and> py_eq_list xs ys)"

text \<open>\<open>xs.count(v)\<close>: the number of elements equal to \<open>v\<close>.\<close>

primrec py_count :: "column \<Rightarrow> pyval \<Rightarrow> nat" where
  "py_count [] v = 0"
| "py_count (x # xs) v = (if py_eq x v then Suc (py_count xs v) else py_count xs v)"

text \<open>\<open>xs[i]\<close> and \<open>xs[i] = v\<close> for a non-negative index; out of range raises IndexError.\<close>

definition item_at :: "'a list \<Rightarrow> nat \<Rightarrow> error + 'a" where
  "item_at xs i = (if i < length xs then Inr (xs ! i) else Inl IndexError)"

definition assign_at :: "'a list \<Rightarrow> nat \<Rightarrow> 'a \<Rightarrow> error + 'a list" where
  "assign_at xs i v = (if i < length xs then Inr (xs[i := v]) else Inl IndexError)"

text \<open>\<open>sep in s\<close>: \<open>sep\<close> occurs in \<open>s\<close> as a contiguous substring.\<close>

fun py_in :: "string \<Rightarrow> string \<Rightarrow> bool" where
  "py_in sep [] = (sep = [])"
| "py_in sep (c # cs) = (prefix sep (c # cs) \<or> py_in sep cs)"

text \<open>
  \<open>s.split(sep)\<close> with no \<open>maxsplit\<close>: the string is cut at every occurrence of
  \<open>sep\<close>, scanning from the left; an empty separator raises ValueError.
  \<open>split_sep\<close> carries the characters of the current part, reversed.
\<close>

fun split_sep :: "string \<Rightarrow> string \<Rightarrow> string \<Rightarrow> string list" where
  "split_sep sep acc [] = [rev acc]"
| "split_sep sep acc (c # cs) =
     (if prefix sep (c # cs) then rev acc # split_sep sep [] (drop (length sep - 1) cs)
      else split_sep sep (c # acc) cs)"

definition py_split :: "string \<Rightarrow> string \<Rightarrow> error + string list" where
  "py_split s sep = (if sep = [] then Inl ValueError else Inr (split_sep sep [] s))"

definition newline :: string where
  "newline = [CHR 0x0A]"

text \<open>\<open>a, b = xs\<close>: unpacking into two targets needs exactly two values.\<close>

fun unpack2 :: "'a list \<Rightarrow> error + ('a \<times> 'a)" where
  "unpack2 [a, b] = Inr (a, b)"
| "unpack2 _ = Inl ValueError"

section \<open>Description parser\<close>

text \<open>
  \<open>get_information_from_descriptions\<close>, the inner loop: the first line that contains
  the separator is split and unpacked into name and target, and the scan stops
  (\<open>break\<close>); with no such line both stay empty.
\<close>

fun scan_lines :: "string \<Rightarrow> string list \<Rightarrow> error + (string \<times> string)" where
  "scan_lines separator [] = Inr ([], [])"
| "scan_lines separator (text_line # rest) =
     (if py_in separator text_line
      then (case py_split text_line separator of
              Inl e \<Rightarrow> Inl e
            | Inr parts \<Rightarrow> unpack2 parts)
      else scan_lines separator rest)"

text \<open>One description: the scan, then the fallback taken whenever the name is still empty.\<close>

definition parse_description :: "string \<Rightarrow> string \<Rightarrow> error + (string \<times> string)" where
  "parse_description description separator =
     (case py_split description newline of
        Inl e \<Rightarrow> Inl e
      | Inr text_lines \<Rightarrow>
          (case scan_lines separator text_lines of
             Inl e \<Rightarrow> Inl e
           | Inr (proposed_name, proposed_target) \<Rightarrow>
               if proposed_name = []
               then Inr (if length text_lines \<ge> 1 then text_lines ! 0 else proposed_name,
                         if length text_lines \<ge> 2 then text_lines ! 1 else proposed_target)
               else Inr (proposed_name, proposed_target)))"

fun parse_descriptions :: "string list \<Rightarrow> string \<Rightarrow> error + (string list \<times> string list)" where
  "parse_descriptions [] separator = Inr ([], [])"
| "parse_descriptions (description # rest) separator =
     (case parse_description description separator of
        Inl e \<Rightarrow> Inl e
      | Inr (proposed_name, proposed_target) \<Rightarrow>
          (case parse_descriptions rest separator of
             Inl e \<Rightarrow> Inl e
           | Inr (proposed_names, proposed_targets) \<Rightarrow>
               Inr (proposed_name # proposed_names, proposed_target # proposed_targets)))"

definition get_information_from_descriptions :: "string list \<Rightarrow> string \<Rightarrow> error + dict" where
  "get_information_from_descriptions descriptions separator =
     (case parse_descriptions descriptions separator of
        Inl e \<Rightarrow> Inl e
      | Inr (proposed_names, proposed_targets) \<Rightarrow>
          Inr [(''description'', map PStr descriptions),
               (''proposed_name'', map PStr proposed_names),
               (''proposed_target'', map PStr proposed_targets)])"

section \<open>Month range\<close>

text \<open>
  \<open>int(s)\<close> on a string either returns an integer or raises ValueError. The builtin
  is a parameter \<open>int_of\<close> of the model (\<open>None\<close> is the ValueError), so that
  nothing depends on which spellings of a number Python accepts.
\<close>

type_synonym int_builtin = "string \<Rightarrow> int option"

text \<open>The first \<open>try\<close> block of \<open>extract_bounds\<close>: the string is one number.\<close>

definition single_number :: "int_builtin \<Rightarrow> string \<Rightarrow> error + (int \<times> int)" where
  "single_number int_of input_string =
     (case int_of input_string of
        None \<Rightarrow> Inl ValueError
      | Some n \<Rightarrow> if n \<ge> 1 \<and> n \<le> 12 then Inr (n, n) else Inl ValueError)"

text \<open>
  \<open>lower_bound, upper_bound = map(int, parts)\<close>: a wrong number of parts and a part
  that is not a number both raise ValueError.
\<close>

definition two_numbers :: "int_builtin \<Rightarrow> string list \<Rightarrow> error + (int \<times> int)" where
  "two_numbers int_of parts =
     (case unpack2 parts of
        Inl e \<Rightarrow> Inl e
      | Inr (a, b) \<Rightarrow>
          (case int_of a of
             None \<Rightarrow> Inl ValueError
           | Some lower_bound \<Rightarrow>
               (case int_of b of
                  None \<Rightarrow> Inl ValueError
                | Some upper_bound \<Rightarrow> Inr (lower_bound, upper_bound))))"

text \<open>The inner \<open>try\<close> block: two numbers separated by a dash.\<close>

definition dash_range :: "int_builtin \<Rightarrow> string \<Rightarrow> error + (int \<times> int)" where
  "dash_range int_of input_string =
     (case py_split input_string ''-'' of
        Inl e \<Rightarrow> Inl e
      | Inr parts \<Rightarrow>
          (case two_numbers int_of parts of
             Inl e \<Rightarrow> Inl e
           | Inr (lower_bound, upper_bound) \<Rightarrow>
               if 1 \<le> lower_bound \<and> lower_bound \<le> 12 \<and> 1 \<le> upper_bound \<and> upper_bound \<le> 12
                  \<and> lower_bound < upper_bound
               then Inr (lower_bound, upper_bound)
               else Inl ValueError))"

text \<open>
  \<open>extract_bounds\<close>: the bare \<open>except\<close> catches whatever the first block raises;
  the inner handler turns ValueError and IndexError into ValueError and lets any other
  exception through.
\<close>

definition extract_bounds :: "int_builtin \<Rightarrow> string \<Rightarrow> error + (int \<times> int)" where
  "extract_bounds int_of input_string =
     (case single_number int_of input_string of
        Inr bounds \<Rightarrow> Inr bounds
      | Inl _ \<Rightarrow>
          (case dash_range int_of input_string of
             Inr bounds \<Rightarrow> Inr bounds
           | Inl ValueError \<Rightarrow> Inl ValueError
           | Inl IndexError \<Rightarrow> Inl ValueError
           | Inl e \<Rightarrow> Inl e))"



text \<open>
  An instance of the builtin for the witnesses: \<open>int\<close> on ASCII text, that is optional
  whitespace, an optional sign, decimal digits that single underscores may separate,
  optional whitespace.
\<close>

definition is_space :: "char \<Rightarrow> bool" where
  "is_space c = (of_char c \<in> set [9, 10, 11, 12, 13, 32 :: nat])"

definition is_digit :: "char \<Rightarrow> bool" where
  "is_digit c = (48 \<le> (of_char c :: nat) \<and> (of_char c :: nat) \<le> 57)"

definition digit_value :: "char \<Rightarrow> int" where
  "digit_value c = int (of_char c) - 48"

fun digits_value :: "int \<Rightarrow> string \<Rightarrow> int option" where
  "digits_value acc [] = Some acc"
| "digits_value acc [c] = (if is_digit c then Some (10 * acc + digit_value c) else None)"
| "digits_value acc (c # d # cs) =
     (if is_digit c then digits_value (10 * acc + digit_value c) (d # cs)
      else if c = CHR ''_'' \<and> is_digit d then digits_value (10 * acc + digit_value d) cs
      else None)"

definition unsigned_value :: "string \<Rightarrow> int option" where
  "unsigned_value s =
     (case s of
        [] \<Rightarrow> None
      | c # cs \<Rightarrow> if is_digit c then digits_value (digit_value c) cs else None)"

definition py_int :: int_builtin where
  "py_int s =
     (let t = rev (dropWhile is_space (rev (dropWhile is_space s)))
      in case t of
           [] \<Rightarrow> None
         | c # cs \<Rightarrow>
             if c = CHR ''-'' then map_option uminus (unsigned_value cs)
             else if c = CHR ''+'' then unsigned_value cs
             else unsigned_value t)"

section \<open>Segmenter\<close>

text \<open>
  \<open>segment_pdf\<close> of \<open>segmentation/segment_pdf.py\<close>. The libraries it calls are
  parameters: \<open>convert_from_bytes\<close> renders a PDF into page images (\<open>None\<close> when it
  raises; the loop catches every Exception and goes on to the next file),
  \<open>segment_chemical_structures\<close> returns the segments and bounding boxes of one page,
  \<open>extract_text\<close> the texts beside them, and \<open>elapsed\<close> is the clock reading
  \<open>time() - segmentation_start\<close> of the final report.
\<close>

type_synonym bytes = "nat list"

type_synonym pdf = "string \<times> bytes"

type_synonym bbox = "nat \<times> nat \<times> nat \<times> nat"

record seg_env =
  convert_from_bytes :: "bytes \<Rightarrow> nat \<Rightarrow> image list option"
  segment_chemical_structures :: "ndarray \<Rightarrow> bool \<Rightarrow> bool \<Rightarrow> ndarray list \<times> bbox list"
  extract_text :: "string \<Rightarrow> nat \<Rightarrow> bbox list \<Rightarrow> string list"
  elapsed :: rat

fun np_array :: "image \<Rightarrow> ndarray" where
  "np_array (Image a) = a"

definition os_path_join :: "string \<Rightarrow> string \<Rightarrow> string" where
  "os_path_join a b =
     (if prefix ''/'' b then b
      else if a = [] \<or> suffix ''/'' a then a @ b
      else a @ ''/'' @ b)"

text \<open>A directory argument is used when it is neither \<open>None\<close> nor the empty string.\<close>

definition truthy_str :: "string option \<Rightarrow> bool" where
  "truthy_str s = (case s of None \<Rightarrow> False | Some t \<Rightarrow> t \<noteq> [])"

text \<open>
  The loop over the pages of one file: every segment of the page is appended to
  \<open>sub_segment_list\<close> as the tuple \<open>(filename, page_num, image)\<close>; a tuple is the
  list of its components.
\<close>

fun segment_pages ::
  "seg_env \<Rightarrow> string \<Rightarrow> bool \<Rightarrow> bool \<Rightarrow> bool \<Rightarrow> (nat \<times> image) list \<Rightarrow>
   pyval list list \<Rightarrow> string list \<Rightarrow> pyval list list \<times> string list" where
  "segment_pages env filename expand visualization get_text [] sub_segment_list text_list =
     (sub_segment_list, text_list)"
| "segment_pages env filename expand visualization get_text ((page_num, page) # rest)
     sub_segment_list text_list =
     (case segment_chemical_structures env (np_array page) expand visualization of
        (segments, bboxes) \<Rightarrow>
          segment_pages env filename expand visualization get_text rest
            (sub_segment_list @
               map (\<lambda>segment. [PStr filename, PInt (int page_num), PImage (Image segment)]) segments)
            (if get_text
             then text_list @
                    extract_text env (os_path_join ''pdf_extraction/pdfs'' filename) page_num bboxes
             else text_list))"

text \<open>
  The saving loop \<open>for index, (filename, segment) in enumerate(sub_segment_list)\<close>
  unpacks every tuple into two names before it saves the segment.
\<close>

fun save_segments :: "(nat \<times> pyval list) list \<Rightarrow> error + unit" where
  "save_segments [] = Inr ()"
| "save_segments ((index, t) # rest) =
     (case unpack2 t of
        Inl e \<Rightarrow> Inl e
      | Inr (filename, segment) \<Rightarrow> save_segments rest)"

fun segment_files ::
  "seg_env \<Rightarrow> string option \<Rightarrow> bool \<Rightarrow> bool \<Rightarrow> bool \<Rightarrow> pdf list \<Rightarrow>
   pyval list list \<Rightarrow> string list \<Rightarrow> error + (pyval list list \<times> string list)" where
  "segment_files env target_segment_directory expand visualization get_text [] segment_list text_list =
     Inr (segment_list, text_list)"
| "segment_files env target_segment_directory expand visualization get_text ((filename, content) # pdfs)
     segment_list text_list =
     (case convert_from_bytes env content 300 of
        None \<Rightarrow>
          segment_files env target_segment_directory expand visualization get_text pdfs
            segment_list text_list
      | Some pages \<Rightarrow>
          (case segment_pages env filename expand visualization get_text (enumerate 0 pages) [] text_list of
             (sub_segment_list, text_list') \<Rightarrow>
               (case (if truthy_str target_segment_directory
                      then save_segments (enumerate 0 sub_segment_list)
                      else Inr ()) of
                  Inl e \<Rightarrow> Inl e
                | Inr _ \<Rightarrow>
                    segment_files env target_segment_directory expand visualization get_text pdfs
                      (segment_list @ sub_segment_list) text_list')))"

text \<open>\<open>a / n\<close> on a float and a length: division by zero raises.\<close>

definition py_truediv :: "rat \<Rightarrow> nat \<Rightarrow> error + rat" where
  "py_truediv a n = (if n = 0 then Inl ZeroDivisionError else Inr (a / of_nat n))"

text \<open>
  \<open>segment_pdf\<close>: the loop over the files, then the report, whose f-string divides the
  elapsed time by \<open>len(segment_list)\<close>, then the return.
\<close>

definition segment_pdf ::
  "seg_env \<Rightarrow> pdf list \<Rightarrow> string option \<Rightarrow> bool \<Rightarrow> bool \<Rightarrow> bool \<Rightarrow>
   error + (pyval list list \<times> string list)" where
  "segment_pdf env pdfs target_segment_directory expand visualization get_text =
     (case segment_files env target_segment_directory expand visualization get_text pdfs [] [] of
        Inl e \<Rightarrow> Inl e
      | Inr (segment_list, text_list) \<Rightarrow>
          (case py_truediv (elapsed env) (length segment_list) of
             Inl e \<Rightarrow> Inl e
           | Inr seconds_per_segment \<Rightarrow> Inr (segment_list, text_list)))"

text \<open>
  The caller's side, in \<open>extract_molecules_from_pdfs\<close>: each comprehension unpacks
  every segmentation result into four names
  (\<open>for source_filename, page_number, segment_number, segment in segmentation_results\<close>).
\<close>

fun unpack4 :: "'a list \<Rightarrow> error + ('a \<times> 'a \<times> 'a \<times> 'a)" where
  "unpack4 [a, b, c, d] = Inr (a, b, c, d)"
| "unpack4 _ = Inl ValueError"

fun unpack_results :: "pyval list list \<Rightarrow> error + (pyval \<times> pyval \<times> pyval \<times> pyval) list" where
  "unpack_results [] = Inr []"
| "unpack_results (t # ts) =
     (case unpack4 t of
        Inl e \<Rightarrow> Inl e
      | Inr q \<Rightarrow> (case unpack_results ts of Inl e \<Rightarrow> Inl e | Inr qs \<Rightarrow> Inr (q # qs)))"

section \<open>Reconciliation pipeline\<close>

text \<open>
  A recognizer returns a dict with the columns \<open>smiles\<close>, \<open>inchi\<close> and
  \<open>inchikey\<close>; the pipeline then stores the validator's answer under
  \<open>validation\<close>.
\<close>

record recognition =
  smiles :: column
  inchi :: column
  inchikey :: column

record recognition_results = recognition +
  validation :: column

definition with_validation :: "recognition \<Rightarrow> column \<Rightarrow> recognition_results" where
  "with_validation r v = \<lparr>smiles = smiles r, inchi = inchi r, inchikey = inchikey r, validation = v\<rparr>"

definition dict_of_results :: "recognition_results \<Rightarrow> dict" where
  "dict_of_results r =
     [(''smiles'', smiles r), (''inchi'', inchi r), (''inchikey'', inchikey r),
      (''validation'', validation r)]"

text \<open>
  What a run prints, one constructor per message, with the numbers it formats. A rate
  is the exact quotient \<open>count / len * 100\<close>; the rounding to two decimals of the
  float is not modelled.
\<close>

datatype message =
    Molscribe_recognized nat rat
  | Molscribe_not_recognized nat
  | Decimer_recognized nat
  | Total_recognized nat rat
  | Nothing_extracted
  | Use_only_one_option
  | No_year_or_url
  | Invalid_year_format
  | Year_before_2020

text \<open>What a run does to the outside, in order.\<close>

datatype event =
    Print message
  | Download_pdf string bool
  | Segment_pdf "pdf list"
  | Recognize_molscribe "pyval list"
  | Recognize_decimer "pyval list"
  | Validate_inchikey_list column
  | Remove_duplicates dict
  | Export_to_csv dict

text \<open>
  A run is the trace of its events and either the exception that ended it or its value.
\<close>

type_synonym 'a run = "event list \<times> (error + 'a)"

definition bind_run :: "'a run \<Rightarrow> ('a \<Rightarrow> 'b run) \<Rightarrow> 'b run" where
  "bind_run m f =
     (case m of
        (es, Inl e) \<Rightarrow> (es, Inl e)
      | (es, Inr x) \<Rightarrow> (case f x of (es', r) \<Rightarrow> (es @ es', r)))"

text \<open>
  The collaborators of \<open>drughunter_extractor.py\<close> are parameters. The segmenter is
  the function the call site names, with the keyword arguments of the call
  (\<open>target_segment_directory\<close>, \<open>get_text\<close>, \<open>molecules_of_the_month\<close>,
  \<open>text_direction\<close>); it may raise. The validator is a network service whose answer
  may change between calls, so it takes the number of the call.
\<close>

record env =
  download_pdf :: "string \<Rightarrow> bool \<Rightarrow> pdf list"
  segmenter ::
    "pdf list \<Rightarrow> string option \<Rightarrow> bool \<Rightarrow> bool \<Rightarrow> string \<Rightarrow> error + (pyval list list \<times> string list)"
  recognize_segments_molscribe :: "pyval list \<Rightarrow> recognition"
  recognize_segments_decimer :: "pyval list \<Rightarrow> recognition"
  validate_inchikey_list :: "nat \<Rightarrow> column \<Rightarrow> column"
  remove_duplicates :: "dict \<Rightarrow> dict"
  builtin_int :: int_builtin

text \<open>Lines 87 to 93: the three identity columns and the list of segment images.\<close>

definition segmentation_columns :: "pyval list list \<Rightarrow> error + (dict \<times> pyval list)" where
  "segmentation_columns segmentation_results =
     (case unpack_results segmentation_results of
        Inl e \<Rightarrow> Inl e
      | Inr qs \<Rightarrow>
          Inr ([(''source'', map (\<lambda>(source_filename, _, _, _). source_filename) qs),
                (''page number'', map (\<lambda>(_, page_number, _, _). page_number) qs),
                (''segment number'', map (\<lambda>(_, _, segment_number, _). segment_number) qs)],
               map (\<lambda>(_, _, _, segment). segment) qs))"

text \<open>Lines 94 and 95.\<close>

definition add_descriptions :: "dict \<Rightarrow> string list \<Rightarrow> string \<Rightarrow> error + dict" where
  "add_descriptions extraction_results descriptions separator =
     (if descriptions \<noteq> []
      then (case get_information_from_descriptions descriptions separator of
              Inl e \<Rightarrow> Inl e
            | Inr information \<Rightarrow> Inr (dict_update extraction_results information))
      else Inr extraction_results)"

definition success_rate :: "column \<Rightarrow> rat" where
  "success_rate v = of_nat (py_count v (PBool True)) / of_nat (length v) * 100"

text \<open>Lines 105 to 108.\<close>

definition primary_rates :: "column \<Rightarrow> event list" where
  "primary_rates v =
     (if v \<noteq> []
      then [Print (Molscribe_recognized (py_count v (PBool True)) (success_rate v)),
            Print (Molscribe_not_recognized (py_count v (PBool False)))]
      else [])"

text \<open>Lines 99 to 108: primary recognition, validation, rates.\<close>

definition recognize_primary :: "env \<Rightarrow> pyval list \<Rightarrow> recognition_results run" where
  "recognize_primary env segments =
     (let r = recognize_segments_molscribe env segments;
          v = validate_inchikey_list env 0 (inchikey r)
      in ([Recognize_molscribe segments, Validate_inchikey_list (inchikey r)] @ primary_rates v,
          Inr (with_validation r v)))"

text \<open>
  Line 112: the positions whose validation result \<open>is False\<close>. Line 116: the segments
  at those positions.
\<close>

definition false_positions :: "column \<Rightarrow> nat list" where
  "false_positions v =
     map fst (filter (\<lambda>(index, validation_result). validation_result = PBool False) (enumerate 0 v))"

definition segments_at :: "nat list \<Rightarrow> pyval list \<Rightarrow> pyval list" where
  "segments_at index_list segments =
     map snd (filter (\<lambda>(index, segment). index \<in> set index_list) (enumerate 0 segments))"

text \<open>
  Line 127, the test of the merge. Its second disjunct compares the two
  \<open>inchikey\<close> columns, which are lists, with the empty string.
\<close>

definition decimer_is_better :: "pyval \<Rightarrow> recognition_results \<Rightarrow> recognition_results \<Rightarrow> bool" where
  "decimer_is_better validation_result decimer molscribe =
     (validation_result = PBool True \<or>
      (\<not> py_eq (PList (inchikey decimer)) (PStr []) \<and> py_eq (PList (inchikey molscribe)) (PStr [])))"

text \<open>Lines 128 and 129 for one \<open>index\<close>: the four assignments, in the order of the keys.\<close>

definition copy_cell :: "column \<Rightarrow> nat list \<Rightarrow> column \<Rightarrow> nat \<Rightarrow> error + column" where
  "copy_cell target index_list source index =
     (case item_at source index of
        Inl e \<Rightarrow> Inl e
      | Inr value \<Rightarrow>
          (case item_at index_list index of
             Inl e \<Rightarrow> Inl e
           | Inr i \<Rightarrow> assign_at target i value))"

definition overwrite ::
  "recognition_results \<Rightarrow> nat list \<Rightarrow> recognition_results \<Rightarrow> nat \<Rightarrow> error + recognition_results" where
  "overwrite molscribe index_list decimer index =
     (case copy_cell (smiles molscribe) index_list (smiles decimer) index of
        Inl e \<Rightarrow> Inl e
      | Inr s \<Rightarrow>
     (case copy_cell (inchi molscribe) index_list (inchi decimer) index of
        Inl e \<Rightarrow> Inl e
      | Inr i \<Rightarrow>
     (case copy_cell (inchikey molscribe) index_list (inchikey decimer) index of
        Inl e \<Rightarrow> Inl e
      | Inr k \<Rightarrow>
     (case copy_cell (validation molscribe) index_list (validation decimer) index of
        Inl e \<Rightarrow> Inl e
      | Inr v \<Rightarrow> Inr \<lparr>smiles = s, inchi = i, inchikey = k, validation = v\<rparr>))))"

text \<open>Lines 125 to 129: the loop over \<open>enumerate(recognition_results_decimer['validation'])\<close>.\<close>

fun merge ::
  "recognition_results \<Rightarrow> nat list \<Rightarrow> recognition_results \<Rightarrow> (nat \<times> pyval) list \<Rightarrow>
   error + recognition_results" where
  "merge molscribe index_list decimer [] = Inr molscribe"
| "merge molscribe index_list decimer ((index, validation_result) # rest) =
     (if decimer_is_better validation_result decimer molscribe
      then (case overwrite molscribe index_list decimer index of
              Inl e \<Rightarrow> Inl e
            | Inr molscribe' \<Rightarrow> merge molscribe' index_list decimer rest)
      else merge molscribe index_list decimer rest)"

text \<open>Lines 112 to 129: the complement pass.\<close>

definition complement :: "env \<Rightarrow> pyval list \<Rightarrow> recognition_results \<Rightarrow> recognition_results run" where
  "complement env segments molscribe =
     (let index_list = false_positions (validation molscribe)
      in if index_list \<noteq> []
         then (let selected = segments_at index_list segments;
                   r = recognize_segments_decimer env selected;
                   v = validate_inchikey_list env 1 (inchikey r);
                   decimer = with_validation r v
               in ([Recognize_decimer selected, Validate_inchikey_list (inchikey r),
                    Print (Decimer_recognized (py_count v (PBool True)))],
                   merge molscribe index_list decimer (enumerate 0 v)))
         else ([], Inr molscribe))"

text \<open>
  Lines 81 to 132 of \<open>extract_molecules_from_pdfs\<close>: the record set that is handed to
  \<open>remove_duplicates\<close>.
\<close>

definition records_before_dedup ::
  "env \<Rightarrow> pdf list \<Rightarrow> string option \<Rightarrow> bool \<Rightarrow> bool \<Rightarrow> string \<Rightarrow> bool \<Rightarrow> string \<Rightarrow> dict run" where
  "records_before_dedup env pdfs target_segment_directory decimer_complement get_text
     text_direction molecules_of_the_month separator =
     bind_run ([Segment_pdf pdfs],
               segmenter env pdfs target_segment_directory get_text molecules_of_the_month text_direction)
       (\<lambda>(segmentation_results, descriptions).
     bind_run ([], segmentation_columns segmentation_results)
       (\<lambda>(extraction_results, segments).
     bind_run ([], add_descriptions extraction_results descriptions separator)
       (\<lambda>extraction_results.
     bind_run (recognize_primary env segments)
       (\<lambda>molscribe.
     bind_run (if decimer_complement then complement env segments molscribe else ([], Inr molscribe))
       (\<lambda>molscribe.
     ([], Inr (dict_update extraction_results (dict_of_results molscribe))))))))"

text \<open>Lines 136 to 138.\<close>

definition total_rates :: "column \<Rightarrow> event list" where
  "total_rates v =
     (if v \<noteq> [] then [Print (Total_recognized (py_count v (PBool True)) (success_rate v))] else [])"

text \<open>
  Lines 133 to 143: deduplication, the final rate, and the export or the report that
  nothing was extracted. \<open>if extraction_results:\<close> tests the dict, which is true when
  it has a key.
\<close>

definition report_and_export :: "env \<Rightarrow> dict \<Rightarrow> unit run" where
  "report_and_export env extraction_results =
     (let deduplicated = remove_duplicates env extraction_results
      in case dict_item deduplicated ''validation'' of
           Inl e \<Rightarrow> ([Remove_duplicates extraction_results], Inl e)
         | Inr v \<Rightarrow>
             (Remove_duplicates extraction_results # total_rates v @
                (if deduplicated \<noteq> [] then [Export_to_csv deduplicated] else [Print Nothing_extracted]),
              Inr ()))"

definition extract_molecules_from_pdfs ::
  "env \<Rightarrow> pdf list \<Rightarrow> string option \<Rightarrow> bool \<Rightarrow> bool \<Rightarrow> string \<Rightarrow> bool \<Rightarrow> string \<Rightarrow> unit run" where
  "extract_molecules_from_pdfs env pdfs target_segment_directory decimer_complement get_text
     text_direction molecules_of_the_month separator =
     bind_run (records_before_dedup env pdfs target_segment_directory decimer_complement get_text
                 text_direction molecules_of_the_month separator)
       (report_and_export env)"

section \<open>Command line\<close>

text \<open>\<open>str(n)\<close> on an int: its decimal digits, with a minus sign when negative.\<close>

fun str_nat :: "nat \<Rightarrow> string" where
  "str_nat n =
     (if n < 10 then [char_of (48 + n)] else str_nat (n div 10) @ [char_of (48 + n mod 10)])"

definition py_str :: "int \<Rightarrow> string" where
  "py_str i = (if i < 0 then CHR ''-'' # str_nat (nat (- i)) else str_nat (nat i))"

text \<open>\<open>s.lower()\<close> on ASCII text.\<close>

definition py_lower :: "string \<Rightarrow> string" where
  "py_lower s =
     map (\<lambda>c. if 65 \<le> (of_char c :: nat) \<and> (of_char c :: nat) \<le> 90
               then char_of ((of_char c :: nat) + 32) else c) s"

text \<open>
  \<open>calendar.month_name\<close> in the English locale: thirteen entries, the first empty.
  An index from -13 to 12 selects an entry, counting from the end when negative; any
  other index raises IndexError.
\<close>

definition month_names :: "string list" where
  "month_names =
     ['''', ''January'', ''February'', ''March'', ''April'', ''May'', ''June'', ''July'',
      ''August'', ''September'', ''October'', ''November'', ''December'']"

definition month_name :: "int \<Rightarrow> error + string" where
  "month_name i =
     (if - 13 \<le> i \<and> i \<le> 12 then Inr (month_names ! nat (if i < 0 then i + 13 else i))
      else Inl IndexError)"

text \<open>Line 165: the list of target urls, built before anything is downloaded.\<close>

fun month_urls :: "int \<Rightarrow> int list \<Rightarrow> error + string list" where
  "month_urls target_year [] = Inr []"
| "month_urls target_year (index # rest) =
     (case month_name index of
        Inl e \<Rightarrow> Inl e
      | Inr name \<Rightarrow>
          (case month_urls target_year rest of
             Inl e \<Rightarrow> Inl e
           | Inr urls \<Rightarrow>
               Inr ((''https://drughunter.com/molecules-of-the-month/'' @ py_str target_year @ ''/''
                     @ py_lower name @ ''-'' @ py_str target_year) # urls)))"

text \<open>Lines 168 to 170: every url is downloaded with \<open>download_all=True\<close>.\<close>

fun download_all :: "env \<Rightarrow> string list \<Rightarrow> pdf list \<Rightarrow> pdf list run" where
  "download_all env [] pdfs = ([], Inr pdfs)"
| "download_all env (url # urls) pdfs =
     bind_run ([Download_pdf url True], Inr (pdfs @ download_pdf env url True))
       (download_all env urls)"

definition extract_molecules_of_the_month ::
  "env \<Rightarrow> int \<Rightarrow> int \<times> int \<Rightarrow> string option \<Rightarrow> bool \<Rightarrow> bool \<Rightarrow> unit run" where
  "extract_molecules_of_the_month env target_year target_months target_segment_directory
     decimer_complement get_text =
     bind_run ([], month_urls target_year [fst target_months .. snd target_months])
       (\<lambda>urls.
     bind_run (download_all env urls [])
       (\<lambda>pdfs.
     if pdfs \<noteq> []
     then extract_molecules_from_pdfs env pdfs target_segment_directory decimer_complement get_text
            ''right'' True ''|''
     else ([], Inr ())))"

text \<open>
  The parsed command line. An option that was not given is \<open>None\<close>; \<open>--direction\<close>
  and \<open>--separator\<close> have defaults.
\<close>

record cli_args =
  arg_year :: "int option"
  arg_month :: "string option"
  arg_url :: "string option"
  arg_seg_dir :: "string option"
  arg_decimer_off :: bool
  arg_text :: bool
  arg_direction :: string
  arg_separator :: string

text \<open>\<open>if args.year\<close>: an int is true unless it is \<open>None\<close> or zero.\<close>

definition truthy_int :: "int option \<Rightarrow> bool" where
  "truthy_int i = (case i of None \<Rightarrow> False | Some n \<Rightarrow> n \<noteq> 0)"

text \<open>
  \<open>main\<close>. The warning is printed first; each later branch returns, so the branches
  are an if-chain.
\<close>

definition main :: "env \<Rightarrow> cli_args \<Rightarrow> unit run" where
  "main env a =
     (let decimer_on = \<not> arg_decimer_off a;
          warning = (if truthy_str (arg_url a) \<and> truthy_int (arg_year a)
                     then [Print Use_only_one_option] else [])
      in if truthy_str (arg_url a)
         then bind_run (warning @ [Download_pdf (the (arg_url a)) False],
                        Inr (download_pdf env (the (arg_url a)) False))
                (\<lambda>pdfs. extract_molecules_from_pdfs env pdfs (arg_seg_dir a) decimer_on (arg_text a)
                           (arg_direction a) False (arg_separator a))
         else if \<not> truthy_int (arg_year a) then (warning @ [Print No_year_or_url], Inr ())
         else if length (py_str (the (arg_year a))) \<noteq> 4
         then (warning @ [Print Invalid_year_format], Inr ())
         else if the (arg_year a) < 2020 then (warning @ [Print Year_before_2020], Inr ())
         else bind_run (warning,
                        if truthy_str (arg_month a)
                        then extract_bounds (builtin_int env) (the (arg_month a))
                        else Inr (1, 12))
                (\<lambda>bounds. extract_molecules_of_the_month env (the (arg_year a)) bounds
                             (arg_seg_dir a) decimer_on (arg_text a)))"

section \<open>Measures and example collaborators\<close>

text \<open>The number of segments the segmentation library finds in a list of files.\<close>

definition page_segment_count :: "seg_env \<Rightarrow> bool \<Rightarrow> bool \<Rightarrow> image \<Rightarrow> nat" where
  "page_segment_count env expand visualization page =
     length (fst (segment_chemical_structures env (np_array page) expand visualization))"

definition file_segment_count :: "seg_env \<Rightarrow> bool \<Rightarrow> bool \<Rightarrow> pdf \<Rightarrow> nat" where
  "file_segment_count env expand visualization p =
     (case convert_from_bytes env (snd p) 300 of
        None \<Rightarrow> 0
      | Some pages \<Rightarrow> sum_list (map (page_segment_count env expand visualization) pages))"

definition total_segment_count :: "seg_env \<Rightarrow> bool \<Rightarrow> bool \<Rightarrow> pdf list \<Rightarrow> nat" where
  "total_segment_count env expand visualization pdfs =
     sum_list (map (file_segment_count env expand visualization) pdfs)"

text \<open>
  Example libraries for the segmenter: a file with no bytes fails to convert, every
  other byte is one page, and a page whose first pixel is \<open>n\<close> holds \<open>n\<close>
  segments.
\<close>

definition example_seg_env :: seg_env where
  "example_seg_env =
     \<lparr>convert_from_bytes =
        (\<lambda>content dpi. if content = [] then None else Some (map (\<lambda>n. Image [n]) content)),
      segment_chemical_structures =
        (\<lambda>page expand visualization.
           (map (\<lambda>n. [n]) [0..<(case page of [] \<Rightarrow> 0 | n # _ \<Rightarrow> n)], [])),
      extract_text = (\<lambda>path page_num bboxes. []),
      elapsed = 3\<rparr>"

text \<open>The calls of the complement recognizer in a trace, with the segments of each call.\<close>

fun decimer_calls :: "event list \<Rightarrow> pyval list list" where
  "decimer_calls [] = []"
| "decimer_calls (Recognize_decimer segments # es) = segments # decimer_calls es"
| "decimer_calls (e # es) = decimer_calls es"

text \<open>
  The contracts of the collaborators: a recognizer returns one cell per segment in each
  column, the validator one answer per key.
\<close>

definition recognizer_contract :: "(pyval list \<Rightarrow> recognition) \<Rightarrow> bool" where
  "recognizer_contract recognize =
     (\<forall>segments. length (smiles (recognize segments)) = length segments
                \<and> length (inchi (recognize segments)) = length segments
                \<and> length (inchikey (recognize segments)) = length segments)"

definition validator_contract :: "(nat \<Rightarrow> column \<Rightarrow> column) \<Rightarrow> bool" where
  "validator_contract validate = (\<forall>call keys. length (validate call keys) = length keys)"

definition columns_have_length :: "recognition_results \<Rightarrow> nat \<Rightarrow> bool" where
  "columns_have_length r n =
     (length (smiles r) = n \<and> length (inchi r) = n \<and> length (inchikey r) = n
      \<and> length (validation r) = n)"

text \<open>The chemistry fields and the validated flag of the record at position \<open>i\<close>.\<close>

definition row :: "recognition_results \<Rightarrow> nat \<Rightarrow> pyval list" where
  "row r i = [smiles r ! i, inchi r ! i, inchikey r ! i, validation r ! i]"

text \<open>
  The validated results of the primary recognizer on all segments, and of the
  complement recognizer on the segments it is given (the second call of the validator).
\<close>

definition primary_results :: "env \<Rightarrow> pyval list \<Rightarrow> recognition_results" where
  "primary_results env segments =
     with_validation (recognize_segments_molscribe env segments)
       (validate_inchikey_list env 0 (inchikey (recognize_segments_molscribe env segments)))"

definition complement_results :: "env \<Rightarrow> pyval list \<Rightarrow> recognition_results" where
  "complement_results env selected =
     with_validation (recognize_segments_decimer env selected)
       (validate_inchikey_list env 1 (inchikey (recognize_segments_decimer env selected)))"

text \<open>The identity columns of a list of four-component segmentation results.\<close>

definition identity_columns :: "pyval list list \<Rightarrow> dict" where
  "identity_columns segmentation_results =
     [(''source'', map (\<lambda>t. t ! 0) segmentation_results),
      (''page number'', map (\<lambda>t. t ! 1) segmentation_results),
      (''segment number'', map (\<lambda>t. t ! 2) segmentation_results)]"

definition remove_nulls :: "column \<Rightarrow> column" where
  "remove_nulls v = filter (\<lambda>x. x \<noteq> PNone) v"

text \<open>
  Example collaborators for the pipeline. The segmenter returns one segment per file,
  the file's bytes as its image. The primary recognizer reads the key \<open>A\<close> from the
  image \<open>[1]\<close>, the key \<open>B\<close> from the image \<open>[3]\<close> and nothing from any other;
  the complement recognizer reads the key \<open>X\<close> from every image. The validator knows
  \<open>A\<close>, cannot check \<open>B\<close>, and rejects every other key. Deduplication leaves the
  table as it is.
\<close>

definition example_key :: "pyval \<Rightarrow> pyval" where
  "example_key segment =
     (if segment = PImage (Image [1]) then PStr ''A''
      else if segment = PImage (Image [3]) then PStr ''B''
      else PStr [])"

definition example_validation :: "pyval \<Rightarrow> pyval" where
  "example_validation key =
     (if key = PStr ''A'' then PBool True else if key = PStr ''B'' then PNone else PBool False)"

definition example_env :: env where
  "example_env =
     \<lparr>download_pdf = (\<lambda>url all. [(url, [1])]),
      segmenter =
        (\<lambda>pdfs target_segment_directory get_text molecules_of_the_month text_direction.
           Inr (map (\<lambda>(filename, content).
                       [PStr filename, PInt 0, PInt 0, PImage (Image content)]) pdfs, [])),
      recognize_segments_molscribe =
        (\<lambda>segments. \<lparr>smiles = map example_key segments, inchi = map example_key segments,
                       inchikey = map example_key segments\<rparr>),
      recognize_segments_decimer =
        (\<lambda>segments. \<lparr>smiles = map (\<lambda>_. PStr ''CCO'') segments,
                       inchi = map (\<lambda>_. PStr ''InChI=1S/C2H6O'') segments,
                       inchikey = map (\<lambda>_. PStr ''X'') segments\<rparr>),
      validate_inchikey_list = (\<lambda>call keys. map example_validation keys),
      remove_duplicates = (\<lambda>d. d),
      builtin_int = py_int\<rparr>"

definition example_args :: cli_args where
  "example_args =
     \<lparr>arg_year = None, arg_month = None, arg_url = None, arg_seg_dir = None,
      arg_decimer_off = False, arg_text = False, arg_direction = ''right'', arg_separator = ''|''\<rparr>"

section \<open>Segmenter: properties\<close>

lemma segment_pages_length:
  "length (fst (segment_pages env filename expand visualization get_text ps sub texts)) =
     length sub + sum_list (map (page_segment_count env expand visualization) (map snd ps))"
  by (induction ps arbitrary: sub texts) (auto simp: page_segment_count_def split: prod.splits)

lemma segment_files_no_segments:
  "total_segment_count env expand visualization pdfs = 0 \<Longrightarrow>
   \<exists>texts'. segment_files env dir expand visualization get_text pdfs segment_list texts
              = Inr (segment_list, texts')"
proof (induction pdfs arbitrary: texts)
  case Nil
  then show ?case by simp
next
  case (Cons p pdfs)
  obtain filename content where p: "p = (filename, content)" by (cases p)
  from Cons.prems have rest: "total_segment_count env expand visualization pdfs = 0"
    and this_file: "file_segment_count env expand visualization p = 0"
    by (simp_all add: total_segment_count_def)
  show ?case
  proof (cases "convert_from_bytes env content 300")
    case None
    with Cons.IH [OF rest] p show ?thesis by simp
  next
    case (Some pages)
    obtain sub texts' where sp:
      "segment_pages env filename expand visualization get_text (enumerate 0 pages) [] texts
         = (sub, texts')"
      by (cases "segment_pages env filename expand visualization get_text (enumerate 0 pages) [] texts")
    from this_file Some p
    have "sum_list (map (page_segment_count env expand visualization) pages) = 0"
      by (simp add: file_segment_count_def)
    with segment_pages_length
           [of env filename expand visualization get_text "enumerate 0 pages" "[]" texts] sp
    have "sub = []" by simp
    with Cons.IH [OF rest, of texts'] p Some sp show ?thesis by simp
  qed
qed

text \<open>
  C9. When the files yield no segment at all (every file fails to convert, or no page
  holds a structure), \<open>segment_pdf\<close> does not return the empty list: the division by
  \<open>len(segment_list)\<close> in its final report raises ZeroDivisionError.
\<close>

theorem segment_pdf_zero_segments:
  "total_segment_count env expand visualization pdfs = 0 \<Longrightarrow>
   segment_pdf env pdfs target_segment_directory expand visualization get_text
     = Inl ZeroDivisionError"
proof -
  assume "total_segment_count env expand visualization pdfs = 0"
  then obtain texts' where
    "segment_files env target_segment_directory expand visualization get_text pdfs [] []
       = Inr ([], texts')"
    using segment_files_no_segments by blast
  then show ?thesis by (simp add: segment_pdf_def py_truediv_def)
qed

theorem segment_pdf_zero_segments_witness:
  "total_segment_count example_seg_env True False [(''a.pdf'', [0, 0]), (''b.pdf'', [])] = 0 \<and>
   segment_pdf example_seg_env [(''a.pdf'', [0, 0]), (''b.pdf'', [])] (Some ''out'') True False True
     = Inl ZeroDivisionError"
proof -
  have h: "total_segment_count example_seg_env True False [(''a.pdf'', [0, 0]), (''b.pdf'', [])] = 0"
    by (simp add: total_segment_count_def file_segment_count_def page_segment_count_def
          example_seg_env_def)
  show ?thesis using h segment_pdf_zero_segments [OF h] by simp
qed

text \<open>
  C3. On a file with one page and one segment, \<open>segment_pdf\<close> returns the tuple
  \<open>(filename, page_num, image)\<close>, which has three components and no segment index;
  the comprehensions of \<open>extract_molecules_from_pdfs\<close> unpack four and raise
  ValueError on it.
\<close>

theorem segment_pdf_returns_triples:
  "segment_pdf example_seg_env [(''a.pdf'', [1])] None True False False
     = Inr ([[PStr ''a.pdf'', PInt 0, PImage (Image [0])]], []) \<and>
   segmentation_columns [[PStr ''a.pdf'', PInt 0, PImage (Image [0])]] = Inl ValueError"
  by (simp add: segment_pdf_def example_seg_env_def truthy_str_def py_truediv_def
        segmentation_columns_def)

section \<open>Description parser: properties\<close>

text \<open>
  C7. The parser has a failure mode: a line with two separators is split into three
  parts, and the unpacking into name and target raises ValueError.
\<close>

theorem description_parser_raises:
  "get_information_from_descriptions [''A|B|C''] ''|'' = Inl ValueError"
  by (simp add: get_information_from_descriptions_def parse_description_def py_split_def
        newline_def)

section \<open>Month range: properties\<close>




section \<open>Positions and segments of the complement pass\<close>

lemma filter_enumerate:
  "map fst (filter (\<lambda>(i, x). Q x) (enumerate 0 xs)) = filter (\<lambda>i. Q (xs ! i)) [0..<length xs]"
proof (induction xs rule: rev_induct)
  case Nil
  then show ?case by simp
next
  case (snoc x xs)
  have "filter (\<lambda>i. Q ((xs @ [x]) ! i)) [0..<length xs] = filter (\<lambda>i. Q (xs ! i)) [0..<length xs]"
    by (rule filter_cong) (simp_all add: nth_append)
  with snoc show ?case by (simp add: enumerate_append_eq)
qed

lemma filter_enumerate_index:
  "map snd (filter (\<lambda>(i, x). Q i) (enumerate 0 xs)) = map ((!) xs) (filter Q [0..<length xs])"
proof (induction xs rule: rev_induct)
  case Nil
  then show ?case by simp
next
  case (snoc x xs)
  have "map ((!) (xs @ [x])) (filter Q [0..<length xs]) = map ((!) xs) (filter Q [0..<length xs])"
    by (rule map_cong) (simp_all add: nth_append)
  with snoc show ?case by (simp add: enumerate_append_eq)
qed

lemma false_positions_eq:
  "false_positions v = filter (\<lambda>i. v ! i = PBool False) [0..<length v]"
  using filter_enumerate [of "\<lambda>x. x = PBool False" v] by (simp add: false_positions_def)

lemma segments_at_eq:
  "segments_at index_list segments =
     map ((!) segments) (filter (\<lambda>i. i \<in> set index_list) [0..<length segments])"
  using filter_enumerate_index [of "\<lambda>i. i \<in> set index_list" segments]
  by (simp add: segments_at_def)

lemma segments_at_false_positions:
  "segments_at (false_positions v) segments =
     map ((!) segments) (filter (\<lambda>i. i < length v \<and> v ! i = PBool False) [0..<length segments])"
  by (simp add: segments_at_eq false_positions_eq conj_commute)

lemma false_positions_empty: "false_positions v = [] \<longleftrightarrow> PBool False \<notin> set v"
  by (auto simp: false_positions_eq filter_empty_conv in_set_conv_nth)

lemma length_segments_at_false_positions:
  "length v = length segments \<Longrightarrow>
   length (segments_at (false_positions v) segments) = length (false_positions v)"
proof -
  assume "length v = length segments"
  then have "filter (\<lambda>i. i < length v \<and> v ! i = PBool False) [0..<length segments]
               = false_positions v"
    by (auto simp: false_positions_eq intro: filter_cong)
  then show ?thesis by (simp add: segments_at_false_positions)
qed

lemma false_positions_bound:
  "j < length (false_positions v) \<Longrightarrow>
   false_positions v ! j < length v \<and> v ! (false_positions v ! j) = PBool False"
proof -
  assume "j < length (false_positions v)"
  then have "false_positions v ! j \<in> set (false_positions v)" by (rule nth_mem)
  then show ?thesis by (simp add: false_positions_eq)
qed

section \<open>Merge loop\<close>

text \<open>
  A list is never equal to a string, so the second disjunct of the test of line 127 is
  false whatever the two columns hold.
\<close>

lemma decimer_is_better_iff:
  "decimer_is_better validation_result decimer molscribe \<longleftrightarrow> validation_result = PBool True"
  by (simp add: decimer_is_better_def)

lemma copy_cell_ok:
  "j < length index_list \<Longrightarrow> j < length source \<Longrightarrow> index_list ! j < length target \<Longrightarrow>
   copy_cell target index_list source j = Inr (target[index_list ! j := source ! j])"
  by (simp add: copy_cell_def item_at_def assign_at_def)

lemma overwrite_ok:
  assumes "columns_have_length molscribe n" and "columns_have_length decimer m"
    and "j < length index_list" and "j < m" and "index_list ! j < n"
  shows "overwrite molscribe index_list decimer j =
           Inr \<lparr>smiles = (smiles molscribe)[index_list ! j := smiles decimer ! j],
                inchi = (inchi molscribe)[index_list ! j := inchi decimer ! j],
                inchikey = (inchikey molscribe)[index_list ! j := inchikey decimer ! j],
                validation = (validation molscribe)[index_list ! j := validation decimer ! j]\<rparr>"
  using assms by (simp add: overwrite_def copy_cell_ok columns_have_length_def)

lemma overwrite_row:
  assumes "columns_have_length molscribe n" and "columns_have_length decimer m"
    and "j < length index_list" and "j < m" and "index_list ! j < n"
  obtains molscribe' where "overwrite molscribe index_list decimer j = Inr molscribe'"
    and "columns_have_length molscribe' n"
    and "\<And>i. i < n \<Longrightarrow>
           row molscribe' i = (if i = index_list ! j then row decimer j else row molscribe i)"
proof -
  let ?m = "\<lparr>smiles = (smiles molscribe)[index_list ! j := smiles decimer ! j],
             inchi = (inchi molscribe)[index_list ! j := inchi decimer ! j],
             inchikey = (inchikey molscribe)[index_list ! j := inchikey decimer ! j],
             validation = (validation molscribe)[index_list ! j := validation decimer ! j]\<rparr>"
  have "overwrite molscribe index_list decimer j = Inr ?m" using assms by (rule overwrite_ok)
  moreover have "columns_have_length ?m n" using assms(1) by (simp add: columns_have_length_def)
  moreover have "\<And>i. i < n \<Longrightarrow>
                   row ?m i = (if i = index_list ! j then row decimer j else row molscribe i)"
    using assms(1) by (simp add: row_def columns_have_length_def)
  ultimately show ?thesis using that by blast
qed

text \<open>
  With columns of the right lengths the loop ends without an IndexError, keeps every
  column's length, and leaves at each position either the row it found there or the
  row of the complement result whose index it is.
\<close>

lemma merge_ok:
  assumes "columns_have_length molscribe n" and "columns_have_length decimer m"
    and "\<forall>jv \<in> set js. fst jv < m \<and> fst jv < length index_list \<and> index_list ! fst jv < n"
  shows "\<exists>merged. merge molscribe index_list decimer js = Inr merged
           \<and> columns_have_length merged n
           \<and> (\<forall>i<n. row merged i = row molscribe i
                       \<or> (\<exists>j<m. j < length index_list \<and> index_list ! j = i
                                 \<and> row merged i = row decimer j))"
  using assms
proof (induction js arbitrary: molscribe)
  case Nil
  then show ?case by simp
next
  case (Cons jv js)
  obtain j v where jv: "jv = (j, v)" by (cases jv)
  from Cons.prems(3) jv have j: "j < m" "j < length index_list" "index_list ! j < n" by simp_all
  from Cons.prems(3) have rest:
    "\<forall>jv \<in> set js. fst jv < m \<and> fst jv < length index_list \<and> index_list ! fst jv < n" by simp
  show ?case
  proof (cases "decimer_is_better v decimer molscribe")
    case False
    with Cons.IH [OF Cons.prems(1) Cons.prems(2) rest] jv show ?thesis by simp
  next
    case True
    from overwrite_row [OF Cons.prems(1) Cons.prems(2) j(2) j(1) j(3)]
    obtain molscribe' where ow: "overwrite molscribe index_list decimer j = Inr molscribe'"
      and len: "columns_have_length molscribe' n"
      and rows: "\<And>i. i < n \<Longrightarrow>
                   row molscribe' i = (if i = index_list ! j then row decimer j else row molscribe i)"
      by blast
    from Cons.IH [OF len Cons.prems(2) rest]
    obtain merged where m: "merge molscribe' index_list decimer js = Inr merged"
      "columns_have_length merged n"
      "\<forall>i<n. row merged i = row molscribe' i
                \<or> (\<exists>j<m. j < length index_list \<and> index_list ! j = i \<and> row merged i = row decimer j)"
      by blast
    have "\<forall>i<n. row merged i = row molscribe i
                \<or> (\<exists>j<m. j < length index_list \<and> index_list ! j = i \<and> row merged i = row decimer j)"
    proof (intro allI impI)
      fix i assume i: "i < n"
      from m(3) i consider "row merged i = row molscribe' i"
        | "\<exists>j<m. j < length index_list \<and> index_list ! j = i \<and> row merged i = row decimer j"
        by blast
      then show "row merged i = row molscribe i
                \<or> (\<exists>j<m. j < length index_list \<and> index_list ! j = i \<and> row merged i = row decimer j)"
      proof cases
        case 1
        with rows [OF i] j show ?thesis by (cases "i = index_list ! j") auto
      next
        case 2
        then show ?thesis by simp
      qed
    qed
    with m(1,2) ow True jv show ?thesis by simp
  qed
qed

section \<open>Reconciliation pipeline: properties\<close>

lemma snd_bind_run:
  "snd (bind_run m f) = (case snd m of Inl e \<Rightarrow> Inl e | Inr x \<Rightarrow> snd (f x))"
  by (cases m) (auto simp: bind_run_def split: sum.splits prod.splits)

lemma fst_bind_run:
  "fst (bind_run m f) = fst m @ (case snd m of Inl e \<Rightarrow> [] | Inr x \<Rightarrow> fst (f x))"
  by (cases m) (auto simp: bind_run_def split: sum.splits prod.splits)

lemma map_of_dict_set: "map_of (dict_set d k v) = (map_of d)(k \<mapsto> v)"
  by (induction d k v rule: dict_set.induct) auto

lemma unpack_results_ok:
  "list_all (\<lambda>t. length t = 4) ts \<Longrightarrow>
   unpack_results ts = Inr (map (\<lambda>t. (t ! 0, t ! 1, t ! 2, t ! 3)) ts)"
proof (induction ts)
  case Nil
  then show ?case by simp
next
  case (Cons t ts)
  then obtain a b c d where "t = [a, b, c, d]"
    by (auto simp: numeral_eq_Suc length_Suc_conv)
  with Cons show ?case by simp
qed

lemma segmentation_columns_ok:
  "list_all (\<lambda>t. length t = 4) segmentation_results \<Longrightarrow>
   segmentation_columns segmentation_results
     = Inr (identity_columns segmentation_results, map (\<lambda>t. t ! 3) segmentation_results)"
  by (simp add: segmentation_columns_def unpack_results_ok identity_columns_def comp_def)

lemma add_descriptions_ok:
  assumes "parse_descriptions descriptions separator = Inr parsed"
  shows "\<exists>base. add_descriptions (identity_columns segmentation_results) descriptions separator
                  = Inr base
           \<and> map_of base ''source'' = Some (map (\<lambda>t. t ! 0) segmentation_results)
           \<and> map_of base ''page number'' = Some (map (\<lambda>t. t ! 1) segmentation_results)
           \<and> map_of base ''segment number'' = Some (map (\<lambda>t. t ! 2) segmentation_results)"
  using assms
  by (cases parsed)
     (simp add: add_descriptions_def get_information_from_descriptions_def identity_columns_def
        map_of_dict_set)

lemma recognize_primary_value:
  "snd (recognize_primary env segments) = Inr (primary_results env segments)"
  by (simp add: recognize_primary_def primary_results_def Let_def)

lemma primary_results_length:
  "recognizer_contract (recognize_segments_molscribe env) \<Longrightarrow>
   validator_contract (validate_inchikey_list env) \<Longrightarrow>
   columns_have_length (primary_results env segments) (length segments)"
  by (simp add: recognizer_contract_def validator_contract_def columns_have_length_def
        primary_results_def with_validation_def)

lemma complement_results_length:
  "recognizer_contract (recognize_segments_decimer env) \<Longrightarrow>
   validator_contract (validate_inchikey_list env) \<Longrightarrow>
   columns_have_length (complement_results env selected) (length selected)"
  by (simp add: recognizer_contract_def validator_contract_def columns_have_length_def
        complement_results_def with_validation_def)

lemma complement_value:
  "snd (complement env segments molscribe) =
     (if false_positions (validation molscribe) \<noteq> []
      then merge molscribe (false_positions (validation molscribe))
             (complement_results env (segments_at (false_positions (validation molscribe)) segments))
             (enumerate 0 (validation (complement_results env
                (segments_at (false_positions (validation molscribe)) segments))))
      else Inr molscribe)"
  by (simp add: complement_def complement_results_def Let_def with_validation_def)

lemma complement_ok:
  assumes len: "columns_have_length molscribe (length segments)"
    and dec: "recognizer_contract (recognize_segments_decimer env)"
    and val: "validator_contract (validate_inchikey_list env)"
  shows "\<exists>merged. snd (complement env segments molscribe) = Inr merged
           \<and> columns_have_length merged (length segments)
           \<and> (\<forall>i<length segments. row merged i = row molscribe i
                \<or> (validation molscribe ! i = PBool False
                    \<and> (\<exists>j<length (false_positions (validation molscribe)).
                          false_positions (validation molscribe) ! j = i
                          \<and> row merged i = row (complement_results env
                               (segments_at (false_positions (validation molscribe)) segments)) j)))"
proof (cases "false_positions (validation molscribe) = []")
  case True
  with len show ?thesis by (simp add: complement_value)
next
  case False
  let ?il = "false_positions (validation molscribe)"
  let ?dec = "complement_results env (segments_at ?il segments)"
  from len have lv: "length (validation molscribe) = length segments"
    by (simp add: columns_have_length_def)
  have declen: "columns_have_length ?dec (length ?il)"
    using complement_results_length [OF dec val, of "segments_at ?il segments"]
    by (simp add: length_segments_at_false_positions lv)
  then have "length (validation ?dec) = length ?il" by (simp add: columns_have_length_def)
  then have js: "\<forall>jv \<in> set (enumerate 0 (validation ?dec)).
                   fst jv < length ?il \<and> fst jv < length ?il \<and> ?il ! fst jv < length segments"
    using false_positions_bound [of _ "validation molscribe"] lv
    by (auto simp: in_set_enumerate_eq)
  from merge_ok [OF len declen js]
  obtain merged where m: "merge molscribe ?il ?dec (enumerate 0 (validation ?dec)) = Inr merged"
    "columns_have_length merged (length segments)"
    "\<forall>i<length segments. row merged i = row molscribe i
        \<or> (\<exists>j<length ?il. j < length ?il \<and> ?il ! j = i \<and> row merged i = row ?dec j)"
    by blast
  have "\<forall>i<length segments. row merged i = row molscribe i
          \<or> (validation molscribe ! i = PBool False
              \<and> (\<exists>j<length ?il. ?il ! j = i \<and> row merged i = row ?dec j))"
    using m(3) false_positions_bound [of _ "validation molscribe"] by blast
  with m(1,2) False show ?thesis by (simp add: complement_value)
qed

text \<open>
  C1. With the example collaborators and one segment, the primary result has the empty
  identity key and is not validated, the complement result has the key \<open>X\<close> and is
  not validated either. The merge policy asks for the complement's values at that
  position; the record set keeps the primary's.
\<close>

theorem merge_keeps_empty_primary:
  "primary_results example_env [PImage (Image [2])]
     = \<lparr>smiles = [PStr []], inchi = [PStr []], inchikey = [PStr []], validation = [PBool False]\<rparr> \<and>
   complement_results example_env [PImage (Image [2])]
     = \<lparr>smiles = [PStr ''CCO''], inchi = [PStr ''InChI=1S/C2H6O''], inchikey = [PStr ''X''],
        validation = [PBool False]\<rparr> \<and>
   snd (records_before_dedup example_env [(''b.pdf'', [2])] None True False ''right'' False ''|'')
     = Inr [(''source'', [PStr ''b.pdf'']), (''page number'', [PInt 0]), (''segment number'', [PInt 0]),
            (''smiles'', [PStr []]), (''inchi'', [PStr []]), (''inchikey'', [PStr []]),
            (''validation'', [PBool False])]"
  by (simp add: primary_results_def complement_results_def with_validation_def example_env_def
        example_key_def example_validation_def records_before_dedup_def snd_bind_run
        segmentation_columns_def add_descriptions_def recognize_primary_def complement_def
        false_positions_def segments_at_def decimer_is_better_def dict_of_results_def Let_def)

text \<open>
  C2. When the segmenter returns four-component results, the descriptions parse, and
  the recognizers and the validator answer with one cell per input, the run reaches
  deduplication with a record set in which: the source, page number and segment number
  columns are those of the segmentation results, position by position; every chemistry
  column and the validation column has one cell per segment; and the row at each
  position is the primary result's row of that position, or, when the complement pass
  is on and the primary validation there is \<open>False\<close>, the row of the complement
  result computed for that position.
\<close>

theorem alignment_before_dedup:
  assumes seg: "segmenter env pdfs dir get_text motm td = Inr (segmentation_results, descriptions)"
    and four: "list_all (\<lambda>t. length t = 4) segmentation_results"
    and parse: "parse_descriptions descriptions separator = Inr parsed"
    and mol: "recognizer_contract (recognize_segments_molscribe env)"
    and dec: "recognizer_contract (recognize_segments_decimer env)"
    and val: "validator_contract (validate_inchikey_list env)"
  shows "\<exists>events records merged.
           records_before_dedup env pdfs dir decimer_complement get_text td motm separator
             = (events, Inr records)
         \<and> map_of records ''source'' = Some (map (\<lambda>t. t ! 0) segmentation_results)
         \<and> map_of records ''page number'' = Some (map (\<lambda>t. t ! 1) segmentation_results)
         \<and> map_of records ''segment number'' = Some (map (\<lambda>t. t ! 2) segmentation_results)
         \<and> map_of records ''smiles'' = Some (smiles merged)
         \<and> map_of records ''inchi'' = Some (inchi merged)
         \<and> map_of records ''inchikey'' = Some (inchikey merged)
         \<and> map_of records ''validation'' = Some (validation merged)
         \<and> columns_have_length merged (length segmentation_results)
         \<and> (let segments = map (\<lambda>t. t ! 3) segmentation_results;
                 primary = primary_results env segments;
                 index_list = false_positions (validation primary);
                 complementary = complement_results env (segments_at index_list segments)
             in \<forall>i<length segmentation_results.
                  row merged i = row primary i
                  \<or> (decimer_complement \<and> validation primary ! i = PBool False
                      \<and> (\<exists>j<length index_list. index_list ! j = i
                            \<and> row merged i = row complementary j)))"
proof -
  let ?segments = "map (\<lambda>t. t ! 3) segmentation_results"
  let ?primary = "primary_results env ?segments"
  let ?il = "false_positions (validation ?primary)"
  let ?dec = "complement_results env (segments_at ?il ?segments)"
  from add_descriptions_ok [OF parse, of segmentation_results]
  obtain base where base:
    "add_descriptions (identity_columns segmentation_results) descriptions separator = Inr base"
    "map_of base ''source'' = Some (map (\<lambda>t. t ! 0) segmentation_results)"
    "map_of base ''page number'' = Some (map (\<lambda>t. t ! 1) segmentation_results)"
    "map_of base ''segment number'' = Some (map (\<lambda>t. t ! 2) segmentation_results)"
    by blast
  have plen: "columns_have_length ?primary (length ?segments)"
    using mol val by (rule primary_results_length)
  have "\<exists>merged. (if decimer_complement then snd (complement env ?segments ?primary) else Inr ?primary)
                   = Inr merged
          \<and> columns_have_length merged (length ?segments)
          \<and> (\<forall>i<length ?segments. row merged i = row ?primary i
               \<or> (decimer_complement \<and> validation ?primary ! i = PBool False
                   \<and> (\<exists>j<length ?il. ?il ! j = i \<and> row merged i = row ?dec j)))"
  proof (cases decimer_complement)
    case True
    with complement_ok [OF plen dec val] show ?thesis by simp
  next
    case False
    with plen show ?thesis by simp
  qed
  then obtain merged where merged:
    "(if decimer_complement then snd (complement env ?segments ?primary) else Inr ?primary) = Inr merged"
    "columns_have_length merged (length ?segments)"
    "\<forall>i<length ?segments. row merged i = row ?primary i
               \<or> (decimer_complement \<and> validation ?primary ! i = PBool False
                   \<and> (\<exists>j<length ?il. ?il ! j = i \<and> row merged i = row ?dec j))"
    by blast
  let ?records = "dict_update base (dict_of_results merged)"
  have run: "snd (records_before_dedup env pdfs dir decimer_complement get_text td motm separator)
               = Inr ?records"
    using seg base(1) merged(1)
    by (simp add: records_before_dedup_def snd_bind_run segmentation_columns_ok [OF four]
          recognize_primary_value split: if_splits)
  have cols: "map_of ?records ''source'' = Some (map (\<lambda>t. t ! 0) segmentation_results)"
    "map_of ?records ''page number'' = Some (map (\<lambda>t. t ! 1) segmentation_results)"
    "map_of ?records ''segment number'' = Some (map (\<lambda>t. t ! 2) segmentation_results)"
    "map_of ?records ''smiles'' = Some (smiles merged)"
    "map_of ?records ''inchi'' = Some (inchi merged)"
    "map_of ?records ''inchikey'' = Some (inchikey merged)"
    "map_of ?records ''validation'' = Some (validation merged)"
    using base(2,3,4) by (simp_all add: dict_of_results_def map_of_dict_set)
  from run have "records_before_dedup env pdfs dir decimer_complement get_text td motm separator
      = (fst (records_before_dedup env pdfs dir decimer_complement get_text td motm separator),
         Inr ?records)"
    by (metis prod.collapse)
  with cols merged(2,3) show ?thesis by (simp add: Let_def) blast
qed

theorem alignment_before_dedup_witness:
  "segmenter example_env [(''a.pdf'', [1]), (''b.pdf'', [2])] None False False ''right''
     = Inr ([[PStr ''a.pdf'', PInt 0, PInt 0, PImage (Image [1])],
             [PStr ''b.pdf'', PInt 0, PInt 0, PImage (Image [2])]], []) \<and>
   list_all (\<lambda>t. length t = 4)
     [[PStr ''a.pdf'', PInt 0, PInt 0, PImage (Image [1])],
      [PStr ''b.pdf'', PInt 0, PInt 0, PImage (Image [2])]] \<and>
   parse_descriptions [] ''|'' = Inr ([], []) \<and>
   recognizer_contract (recognize_segments_molscribe example_env) \<and>
   recognizer_contract (recognize_segments_decimer example_env) \<and>
   validator_contract (validate_inchikey_list example_env) \<and>
   (\<exists>events records merged.
      records_before_dedup example_env [(''a.pdf'', [1]), (''b.pdf'', [2])] None True False
        ''right'' False ''|'' = (events, Inr records)
      \<and> map_of records ''source'' = Some [PStr ''a.pdf'', PStr ''b.pdf'']
      \<and> map_of records ''page number'' = Some [PInt 0, PInt 0]
      \<and> map_of records ''segment number'' = Some [PInt 0, PInt 0]
      \<and> map_of records ''validation'' = Some (validation merged)
      \<and> columns_have_length merged 2)"
proof -
  let ?results = "[[PStr ''a.pdf'', PInt 0, PInt 0, PImage (Image [1])],
                   [PStr ''b.pdf'', PInt 0, PInt 0, PImage (Image [2])]]"
  have h1: "segmenter example_env [(''a.pdf'', [1]), (''b.pdf'', [2])] None False False ''right''
              = Inr (?results, [])"
    by (simp add: example_env_def)
  have h2: "list_all (\<lambda>t. length t = 4) ?results" by simp
  have h3: "parse_descriptions [] ''|'' = Inr ([], [])" by simp
  have h4: "recognizer_contract (recognize_segments_molscribe example_env)"
    by (simp add: recognizer_contract_def example_env_def)
  have h5: "recognizer_contract (recognize_segments_decimer example_env)"
    by (simp add: recognizer_contract_def example_env_def)
  have h6: "validator_contract (validate_inchikey_list example_env)"
    by (simp add: validator_contract_def example_env_def)
  from alignment_before_dedup [OF h1 h2 h3 h4 h5 h6, of True]
  obtain events records merged where r:
    "records_before_dedup example_env [(''a.pdf'', [1]), (''b.pdf'', [2])] None True False
        ''right'' False ''|'' = (events, Inr records)"
    "map_of records ''source'' = Some (map (\<lambda>t. t ! 0) ?results)"
    "map_of records ''page number'' = Some (map (\<lambda>t. t ! 1) ?results)"
    "map_of records ''segment number'' = Some (map (\<lambda>t. t ! 2) ?results)"
    "map_of records ''validation'' = Some (validation merged)"
    "columns_have_length merged (length ?results)"
    by blast
  have "records_before_dedup example_env [(''a.pdf'', [1]), (''b.pdf'', [2])] None True False
        ''right'' False ''|'' = (events, Inr records)
      \<and> map_of records ''source'' = Some [PStr ''a.pdf'', PStr ''b.pdf'']
      \<and> map_of records ''page number'' = Some [PInt 0, PInt 0]
      \<and> map_of records ''segment number'' = Some [PInt 0, PInt 0]
      \<and> map_of records ''validation'' = Some (validation merged)
      \<and> columns_have_length merged 2"
    using r by (simp add: numeral_2_eq_2)
  then have "\<exists>events records merged.
      records_before_dedup example_env [(''a.pdf'', [1]), (''b.pdf'', [2])] None True False
        ''right'' False ''|'' = (events, Inr records)
      \<and> map_of records ''source'' = Some [PStr ''a.pdf'', PStr ''b.pdf'']
      \<and> map_of records ''page number'' = Some [PInt 0, PInt 0]
      \<and> map_of records ''segment number'' = Some [PInt 0, PInt 0]
      \<and> map_of records ''validation'' = Some (validation merged)
      \<and> columns_have_length merged 2"
    by (intro exI)
  with h1 h2 h3 h4 h5 h6 show ?thesis by (intro conjI)
qed

lemma decimer_calls_append: "decimer_calls (xs @ ys) = decimer_calls xs @ decimer_calls ys"
  by (induction xs rule: decimer_calls.induct) simp_all

lemma decimer_calls_primary_rates: "decimer_calls (primary_rates v) = []"
  by (simp add: primary_rates_def)

lemma decimer_calls_total_rates: "decimer_calls (total_rates v) = []"
  by (simp add: total_rates_def)

lemma decimer_calls_report: "decimer_calls (fst (report_and_export env d)) = []"
  by (simp add: report_and_export_def Let_def decimer_calls_append decimer_calls_total_rates
        split: sum.splits)

lemma decimer_calls_recognize_primary: "decimer_calls (fst (recognize_primary env segments)) = []"
  by (simp add: recognize_primary_def Let_def decimer_calls_primary_rates)

lemma decimer_calls_complement:
  "decimer_calls (fst (complement env segments molscribe)) =
     (if false_positions (validation molscribe) \<noteq> []
      then [segments_at (false_positions (validation molscribe)) segments] else [])"
  by (simp add: complement_def Let_def)

text \<open>
  C4. In a run with the complement pass on (the segmenter returned four-component
  results and the descriptions parsed), the complement recognizer is called once, with
  the segments at the positions whose primary validation is \<open>False\<close>, in the order
  of the input (a position whose validation is \<open>None\<close> is left out), when there is
  such a position, and is not called when there is none.
\<close>

theorem complement_pass_scope:
  assumes seg: "segmenter env pdfs dir get_text motm td = Inr (segmentation_results, descriptions)"
    and four: "list_all (\<lambda>t. length t = 4) segmentation_results"
    and parse: "parse_descriptions descriptions separator = Inr parsed"
  shows "decimer_calls (fst (extract_molecules_from_pdfs env pdfs dir True get_text td motm separator)) =
           (let segments = map (\<lambda>t. t ! 3) segmentation_results;
                v = validate_inchikey_list env 0 (inchikey (recognize_segments_molscribe env segments))
            in if PBool False \<in> set v
               then [map ((!) segments)
                       (filter (\<lambda>i. i < length v \<and> v ! i = PBool False) [0..<length segments])]
               else [])"
proof -
  let ?segments = "map (\<lambda>t. t ! 3) segmentation_results"
  from add_descriptions_ok [OF parse, of segmentation_results]
  obtain base where base:
    "add_descriptions (identity_columns segmentation_results) descriptions separator = Inr base"
    by blast
  have v: "validation (primary_results env ?segments)
             = validate_inchikey_list env 0 (inchikey (recognize_segments_molscribe env ?segments))"
    by (simp add: primary_results_def with_validation_def)
  have "decimer_calls (fst (extract_molecules_from_pdfs env pdfs dir True get_text td motm separator))
          = decimer_calls (fst (complement env ?segments (primary_results env ?segments)))"
    using seg base
    by (simp add: extract_molecules_from_pdfs_def records_before_dedup_def fst_bind_run snd_bind_run
          segmentation_columns_ok [OF four] recognize_primary_value decimer_calls_append
          decimer_calls_recognize_primary decimer_calls_report
        split: sum.splits)
  then show ?thesis
    by (simp add: decimer_calls_complement v Let_def false_positions_empty
          segments_at_false_positions)
qed

theorem complement_pass_scope_witness:
  "segmenter example_env [(''a.pdf'', [1]), (''b.pdf'', [2]), (''c.pdf'', [3]), (''d.pdf'', [4])]
      None False False ''right''
     = Inr ([[PStr ''a.pdf'', PInt 0, PInt 0, PImage (Image [1])],
             [PStr ''b.pdf'', PInt 0, PInt 0, PImage (Image [2])],
             [PStr ''c.pdf'', PInt 0, PInt 0, PImage (Image [3])],
             [PStr ''d.pdf'', PInt 0, PInt 0, PImage (Image [4])]], []) \<and>
   validate_inchikey_list example_env 0 (inchikey (recognize_segments_molscribe example_env
      [PImage (Image [1]), PImage (Image [2]), PImage (Image [3]), PImage (Image [4])]))
     = [PBool True, PBool False, PNone, PBool False] \<and>
   decimer_calls (fst (extract_molecules_from_pdfs example_env
      [(''a.pdf'', [1]), (''b.pdf'', [2]), (''c.pdf'', [3]), (''d.pdf'', [4])]
      None True False ''right'' False ''|''))
     = [[PImage (Image [2]), PImage (Image [4])]]"
proof -
  let ?results = "[[PStr ''a.pdf'', PInt 0, PInt 0, PImage (Image [1])],
             [PStr ''b.pdf'', PInt 0, PInt 0, PImage (Image [2])],
             [PStr ''c.pdf'', PInt 0, PInt 0, PImage (Image [3])],
             [PStr ''d.pdf'', PInt 0, PInt 0, PImage (Image [4])]]"
  have h1: "segmenter example_env [(''a.pdf'', [1]), (''b.pdf'', [2]), (''c.pdf'', [3]), (''d.pdf'', [4])]
      None False False ''right'' = Inr (?results, [])"
    by (simp add: example_env_def)
  have h2: "list_all (\<lambda>t. length t = 4) ?results" by simp
  have h3: "parse_descriptions [] ''|'' = Inr ([], [])" by simp
  have v: "validate_inchikey_list example_env 0 (inchikey (recognize_segments_molscribe example_env
      [PImage (Image [1]), PImage (Image [2]), PImage (Image [3]), PImage (Image [4])]))
     = [PBool True, PBool False, PNone, PBool False]"
    by (simp add: example_env_def example_key_def example_validation_def)
  have upt4: "[0..<4] = [0, 1, 2, 3]" by (simp add: upt_rec numeral_eq_Suc)
  show ?thesis
    using h1 v complement_pass_scope [OF h1 h2 h3]
    by (simp add: Let_def upt4)
qed

section \<open>Rates and export: properties\<close>

lemma py_count_remove_nulls:
  "v \<noteq> PNone \<Longrightarrow> py_count (remove_nulls xs) v = py_count xs v"
  by (induction xs) (auto simp: remove_nulls_def)

lemma py_eq_PNone: "py_eq x PNone \<longleftrightarrow> x = PNone"
  by (cases x) auto

lemma length_nulls: "length xs = length (remove_nulls xs) + py_count xs PNone"
  by (induction xs) (auto simp: remove_nulls_def py_eq_PNone)

text \<open>
  Nulls are not left out of the denominators: with one validated result and one null
  the reported rate is 50, where the rate over the checked results alone is 100.
\<close>

theorem rate_denominator_counterexample:
  "success_rate [PBool True, PNone] = 50 \<and> success_rate [PBool True] = 100 \<and>
   primary_rates [PBool True, PNone]
     = [Print (Molscribe_recognized 1 50), Print (Molscribe_not_recognized 0)] \<and>
   total_rates [PBool True, PNone] = [Print (Total_recognized 1 50)]"
  by (simp add: success_rate_def primary_rates_def total_rates_def)

text \<open>
  C5, as the code has it. A null is never counted as true or false: the counts that
  the primary report and the final report print are the counts over the list with its
  nulls removed. The denominator of both percentages is the length of the whole
  validation list, which is the number of checked results plus the number of nulls.
\<close>

theorem rates_count_nulls_in_denominator:
  assumes "v \<noteq> []"
  shows "primary_rates v =
           [Print (Molscribe_recognized (py_count (remove_nulls v) (PBool True)) (success_rate v)),
            Print (Molscribe_not_recognized (py_count (remove_nulls v) (PBool False)))] \<and>
         total_rates v =
           [Print (Total_recognized (py_count (remove_nulls v) (PBool True)) (success_rate v))] \<and>
         success_rate v =
           of_nat (py_count (remove_nulls v) (PBool True))
             / of_nat (length (remove_nulls v) + py_count v PNone) * 100"
  using assms length_nulls [of v]
  by (simp add: primary_rates_def total_rates_def success_rate_def py_count_remove_nulls)

theorem rates_count_nulls_in_denominator_witness:
  "[PBool True, PNone, PBool False, PNone] \<noteq> [] \<and>
   primary_rates [PBool True, PNone, PBool False, PNone]
     = [Print (Molscribe_recognized 1 25), Print (Molscribe_not_recognized 1)] \<and>
   total_rates [PBool True, PNone, PBool False, PNone] = [Print (Total_recognized 1 25)] \<and>
   success_rate [PBool True, PNone, PBool False, PNone] = of_nat 1 / of_nat (2 + 2) * 100"
proof -
  have h: "[PBool True, PNone, PBool False, PNone] \<noteq> []" by simp
  show ?thesis
    using rates_count_nulls_in_denominator [OF h]
    by (simp add: remove_nulls_def success_rate_def)
qed

text \<open>
  Whatever the deduplicator returns, the last step never reports that nothing was
  extracted: a table without the \<open>validation\<close> key raises KeyError at line 136, and a
  table with it is a non-empty dict.
\<close>

lemma report_never_says_nothing_extracted:
  "Print Nothing_extracted \<notin> set (fst (report_and_export env extraction_results))"
  by (auto simp: report_and_export_def Let_def dict_item_def total_rates_def
      split: sum.splits option.splits if_splits)

text \<open>
  C6. A run with no segment ends with an empty record set (every column is empty).
  The test of line 140 is on the dict, which has its seven keys, so the run calls
  \<open>export_to_csv\<close> on the empty table and does not report that nothing was
  extracted.
\<close>

theorem empty_record_set_is_exported:
  "extract_molecules_from_pdfs example_env [] None True False ''right'' False ''|''
     = ([Segment_pdf [], Recognize_molscribe [], Validate_inchikey_list [],
         Remove_duplicates
           [(''source'', []), (''page number'', []), (''segment number'', []), (''smiles'', []),
            (''inchi'', []), (''inchikey'', []), (''validation'', [])],
         Export_to_csv
           [(''source'', []), (''page number'', []), (''segment number'', []), (''smiles'', []),
            (''inchi'', []), (''inchikey'', []), (''validation'', [])]],
        Inr ())"
  by (simp add: extract_molecules_from_pdfs_def records_before_dedup_def bind_run_def
        example_env_def segmentation_columns_def add_descriptions_def recognize_primary_def
        complement_def false_positions_def primary_rates_def with_validation_def
        dict_of_results_def report_and_export_def dict_item_def total_rates_def Let_def)

section \<open>Command line: properties\<close>

text \<open>
  A malformed month range does not always stop \<open>main\<close> before the download: with a
  url the month option is never read, and the run downloads from the url and ends
  without a ValueError.
\<close>

theorem month_range_not_read_counterexample:
  "extract_bounds (builtin_int example_env) ''13-1'' = Inl ValueError \<and>
   take 1 (fst (main example_env
      (example_args\<lparr>arg_url := Some ''https://drughunter.com/x'', arg_month := Some ''13-1''\<rparr>)))
     = [Download_pdf ''https://drughunter.com/x'' False] \<and>
   snd (main example_env
      (example_args\<lparr>arg_url := Some ''https://drughunter.com/x'', arg_month := Some ''13-1''\<rparr>))
     = Inr ()"
proof -
  have raised: "extract_bounds (builtin_int example_env) ''13-1'' = Inl ValueError"
    by code_simp
  have first: "take 1 (fst (main example_env
      (example_args\<lparr>arg_url := Some ''https://drughunter.com/x'', arg_month := Some ''13-1''\<rparr>)))
     = [Download_pdf ''https://drughunter.com/x'' False]"
    by (simp add: main_def Let_def truthy_str_def truthy_int_def example_args_def fst_bind_run)
  have returned: "snd (main example_env
      (example_args\<lparr>arg_url := Some ''https://drughunter.com/x'', arg_month := Some ''13-1''\<rparr>))
     = Inr ()"
    by code_simp
  from raised first returned show ?thesis by (intro conjI)
qed

text \<open>
  A url and a year given together do not always print the warning: the year 0 is one
  that \<open>if args.url and args.year\<close> takes as absent.
\<close>

theorem url_and_year_counterexample:
  "Print Use_only_one_option \<notin>
     set (fst (main example_env
       (example_args\<lparr>arg_url := Some ''https://drughunter.com/x'', arg_year := Some 0\<rparr>)))"
  by code_simp

text \<open>
  C10, as the code has it. When a non-empty url and a non-zero year are both given,
  \<open>main\<close> prints the warning and goes on: it downloads from the url and runs the
  pipeline on the result. The year and the month range play no part: any other
  non-zero year and any month range, well-formed or not, give the same run.
\<close>

theorem url_and_year:
  assumes "arg_url a = Some u" and "u \<noteq> []" and "arg_year a = Some y" and "y \<noteq> 0"
  shows "main env a =
           bind_run ([Print Use_only_one_option, Download_pdf u False],
                     Inr (download_pdf env u False))
             (\<lambda>pdfs. extract_molecules_from_pdfs env pdfs (arg_seg_dir a) (\<not> arg_decimer_off a)
                        (arg_text a) (arg_direction a) False (arg_separator a)) \<and>
         (\<forall>y' m'. y' \<noteq> 0 \<longrightarrow> main env (a\<lparr>arg_year := Some y', arg_month := m'\<rparr>) = main env a)"
  using assms by (simp add: main_def Let_def truthy_str_def truthy_int_def)

theorem url_and_year_witness:
  "arg_url (example_args\<lparr>arg_url := Some ''u'', arg_year := Some 2023, arg_month := Some ''x''\<rparr>)
     = Some ''u'' \<and> ''u'' \<noteq> [] \<and>
   arg_year (example_args\<lparr>arg_url := Some ''u'', arg_year := Some 2023, arg_month := Some ''x''\<rparr>)
     = Some 2023 \<and> (2023 :: int) \<noteq> 0 \<and>
   take 2 (fst (main example_env
      (example_args\<lparr>arg_url := Some ''u'', arg_year := Some 2023, arg_month := Some ''x''\<rparr>)))
     = [Print Use_only_one_option, Download_pdf ''u'' False] \<and>
   main example_env (example_args\<lparr>arg_url := Some ''u'', arg_year := Some 2024, arg_month := None\<rparr>)
     = main example_env
         (example_args\<lparr>arg_url := Some ''u'', arg_year := Some 2023, arg_month := Some ''x''\<rparr>)"
proof -
  let ?a = "example_args\<lparr>arg_url := Some ''u'', arg_year := Some 2023, arg_month := Some ''x''\<rparr>"
  have h1: "arg_url ?a = Some ''u''" by simp
  have h2: "''u'' \<noteq> []" by simp
  have h3: "arg_year ?a = Some 2023" by simp
  have h4: "(2023 :: int) \<noteq> 0" by simp
  note inst = url_and_year [OF h1 h2 h3 h4, of example_env]
  from inst have run: "fst (main example_env ?a) =
           fst (bind_run ([Print Use_only_one_option, Download_pdf ''u'' False],
                     Inr (download_pdf example_env ''u'' False))
             (\<lambda>pdfs. extract_molecules_from_pdfs example_env pdfs (arg_seg_dir ?a)
                        (\<not> arg_decimer_off ?a) (arg_text ?a) (arg_direction ?a) False
                        (arg_separator ?a)))"
    by (simp only:)
  have prefix: "take 2 (fst (main example_env ?a))
                   = [Print Use_only_one_option, Download_pdf ''u'' False]"
    unfolding run fst_bind_run by simp
  from inst have "(2024 :: int) \<noteq> 0 \<longrightarrow>
      main example_env (?a\<lparr>arg_year := Some 2024, arg_month := None\<rparr>) = main example_env ?a"
    by blast
  then have same: "main example_env (?a\<lparr>arg_year := Some 2024, arg_month := None\<rparr>)
                     = main example_env ?a"
    by simp
  have upd: "?a\<lparr>arg_year := Some 2024, arg_month := None\<rparr>
               = example_args\<lparr>arg_url := Some ''u'', arg_year := Some 2024, arg_month := None\<rparr>"
    by simp
  show ?thesis
    using h1 h2 h3 h4 prefix same [unfolded upd] by (intro conjI)
qed

end
